theory Spec2Isabelle
  imports Complex_Main "HOL-Library.Product_Lexorder" "HOL-Library.AList"
begin

section \<open>Strings and the regular expressions of the pattern tables\<close>

text \<open>
  A character is a code point below 256 and a Python \<open>str\<close> is a \<^typ>\<open>string\<close>.
  \<open>str.lower\<close> and \<open>str.upper\<close> move the ASCII letters and the Latin-1 letters that
  have a partner below 256; every keyword and table key of the program is ASCII.
  Floating-point scores are modelled as exact rationals (\<^typ>\<open>rat\<close>).
\<close>

definition lower_char :: "char \<Rightarrow> char" where
  "lower_char c = (let n = (of_char c :: nat) in
     if (65 \<le> n \<and> n \<le> 90) \<or> (192 \<le> n \<and> n \<le> 222 \<and> n \<noteq> 215)
     then char_of (n + 32) else c)"

definition lower :: "string \<Rightarrow> string" where
  "lower s = map lower_char s"

definition upper_char :: "char \<Rightarrow> char" where
  "upper_char c = (let n = (of_char c :: nat) in
     if (97 \<le> n \<and> n \<le> 122) \<or> (224 \<le> n \<and> n \<le> 254 \<and> n \<noteq> 247)
     then char_of (n - 32) else c)"

definition upper :: "string \<Rightarrow> string" where
  "upper s = map upper_char s"

text \<open>Python's \<open>k in s\<close> on strings: \<open>k\<close> occurs in \<open>s\<close> as a contiguous block.\<close>

definition str_in :: "string \<Rightarrow> string \<Rightarrow> bool" where
  "str_in k s = list_ex (\<lambda>n. take (length k) (drop n s) = k) [0..<Suc (length s)]"

text \<open>
  The fragment of Python's \<open>re\<close> syntax the classifier's tables use: literals, \<open>.*\<close>
  (any run of characters other than a newline), alternation and concatenation.
  \<open>rmatch r s\<close> lists what is left of \<open>s\<close> after each way of matching \<open>r\<close> at its start;
  \<open>re_search\<close> tries every start position, as \<open>re.search\<close> does.
\<close>

datatype regex = Lit string | Any_Star | Alt regex regex | Cat regex regex

fun rmatch :: "regex \<Rightarrow> string \<Rightarrow> string list" where
  "rmatch (Lit l) s = (if take (length l) s = l then [drop (length l) s] else [])"
| "rmatch Any_Star s =
     map (\<lambda>n. drop n s) [0..<Suc (length (takeWhile (\<lambda>c. c \<noteq> CHR 0x0A) s))]"
| "rmatch (Alt r1 r2) s = rmatch r1 s @ rmatch r2 s"
| "rmatch (Cat r1 r2) s = concat (map (rmatch r2) (rmatch r1 s))"

definition re_search :: "regex \<Rightarrow> string \<Rightarrow> bool" where
  "re_search r s = list_ex (\<lambda>n. rmatch r (drop n s) \<noteq> []) [0..<Suc (length s)]"

fun regex_lower :: "regex \<Rightarrow> regex" where
  "regex_lower (Lit l) = Lit (lower l)"
| "regex_lower Any_Star = Any_Star"
| "regex_lower (Alt r1 r2) = Alt (regex_lower r1) (regex_lower r2)"
| "regex_lower (Cat r1 r2) = Cat (regex_lower r1) (regex_lower r2)"

text \<open>\<open>re.search(p, s, re.IGNORECASE)\<close>: letters match regardless of case.\<close>

definition re_search_ignorecase :: "regex \<Rightarrow> string \<Rightarrow> bool" where
  "re_search_ignorecase r s = re_search (regex_lower r) (lower s)"

text \<open>\<open>a.*b\<close>, \<open>a.*b.*c\<close> and \<open>(a|b|...)\<close> as the tables write them.\<close>

definition gap :: "string \<Rightarrow> string \<Rightarrow> regex" where
  "gap a b = Cat (Lit a) (Cat Any_Star (Lit b))"

definition gap3 :: "string \<Rightarrow> string \<Rightarrow> string \<Rightarrow> regex" where
  "gap3 a b c = Cat (Lit a) (Cat Any_Star (Cat (Lit b) (Cat Any_Star (Lit c))))"

fun alts :: "regex list \<Rightarrow> regex" where
  "alts [] = Lit []"
| "alts [r] = r"
| "alts (r # rs) = Alt r (alts rs)"


section \<open>parser/patterns.py: ErrorPatterns\<close>

text \<open>The dictionary of \<open>_initialize_error_patterns\<close>, in insertion order.\<close>

definition initialize_error_patterns :: "(string \<times> regex list) list" where
  "initialize_error_patterns =
   [(''database_errors'',
      [alts [gap ''connection'' ''timeout'', gap ''database'' ''unavailable'',
             Lit ''deadlock'', gap ''constraint'' ''violation''],
       Cat (alts [Lit ''mysql'', Lit ''postgres'', Lit ''mongodb''])
           (Cat Any_Star (Lit ''error'')),
       alts [gap ''sql'' ''syntax'', gap ''query'' ''failed'']]),
    (''network_errors'',
      [alts [gap ''connection'' ''refused'', Lit ''timeout'', gap ''network'' ''unreachable''],
       alts [gap ''dns'' ''error'', gap3 ''host'' ''not'' ''found''],
       alts [gap ''ssl'' ''error'', gap ''certificate'' ''error'']]),
    (''application_errors'',
      [alts [gap ''null'' ''pointer'', gap ''segmentation'' ''fault'',
             gap3 ''out'' ''of'' ''memory''],
       alts [gap ''permission'' ''denied'', gap ''access'' ''denied''],
       alts [gap3 ''file'' ''not'' ''found'', gap3 ''directory'' ''not'' ''found'']]),
    (''authentication_errors'',
      [alts [gap ''invalid'' ''credentials'', gap ''authentication'' ''failed''],
       alts [Lit ''unauthorized'', Lit ''forbidden''],
       alts [gap ''session'' ''expired'', gap ''token'' ''expired'']]),
    (''system_errors'',
      [alts [gap ''disk'' ''full'', gap3 ''out'' ''of'' ''space''],
       alts [gap ''memory'' ''leak'', gap ''cpu'' ''overload''],
       alts [gap ''service'' ''unavailable'', gap ''system'' ''down'']])]"

text \<open>
  \<open>classify_error\<close>: every error type one of whose patterns is found in the message, in
  table order; \<open>['unknown']\<close> when there is none. The table is a parameter, since
  \<open>update_classification_rules\<close> can extend it.
\<close>

definition classify_error :: "(string \<times> regex list) list \<Rightarrow> string \<Rightarrow> string list" where
  "classify_error table message =
     (let classifications =
        map fst (filter (\<lambda>(error_type, patterns).
                   list_ex (\<lambda>p. re_search_ignorecase p message) patterns) table)
      in if classifications \<noteq> [] then classifications else [''unknown''])"

definition determine_severity :: "string \<Rightarrow> string" where
  "determine_severity message =
     (let message_lower = lower message;
          critical_keywords = [''fatal'', ''critical'', ''crash'', ''down'', ''unavailable''];
          warning_keywords = [''warn'', ''warning'', ''timeout'', ''retry''];
          info_keywords = [''info'', ''debug'', ''trace'']
      in if list_ex (\<lambda>k. str_in k message_lower) critical_keywords then ''CRITICAL''
         else if list_ex (\<lambda>k. str_in k message_lower) warning_keywords then ''WARNING''
         else if list_ex (\<lambda>k. str_in k message_lower) info_keywords then ''INFO''
         else ''ERROR'')"

definition component_patterns :: "(regex \<times> string) list" where
  "component_patterns =
   [(alts [Lit ''database'', Lit ''db''], ''database''),
    (alts [Lit ''api'', Lit ''service'', Lit ''endpoint''], ''service''),
    (alts [Lit ''user'', Lit ''account'', Lit ''auth''], ''authentication''),
    (alts [Lit ''file'', Lit ''disk'', Lit ''storage''], ''storage''),
    (alts [Lit ''network'', Lit ''connection'', Lit ''socket''], ''network''),
    (alts [Lit ''memory'', Lit ''cpu'', Lit ''ram''], ''system''),
    (alts [Lit ''queue'', Lit ''message'', Lit ''event''], ''messaging''),
    (alts [Lit ''cache'', Lit ''redis'', Lit ''memcached''], ''cache'')]"

definition extract_components :: "string \<Rightarrow> string list" where
  "extract_components message =
     (let message_lower = lower message
      in map snd (filter (\<lambda>(pattern, component). re_search pattern message_lower)
                         component_patterns))"

definition suggest_actions :: "string \<Rightarrow> string list" where
  "suggest_actions message =
     (let message_lower = lower message
      in (if str_in ''timeout'' message_lower
          then [''Check network connectivity'', ''Increase timeout settings'',
                ''Monitor resource usage''] else [])
       @ (if str_in ''connection'' message_lower
          then [''Verify service availability'', ''Check connection configuration'',
                ''Review firewall settings''] else [])
       @ (if str_in ''database'' message_lower
          then [''Check database connectivity'', ''Verify database permissions'',
                ''Review query performance''] else [])
       @ (if str_in ''authentication'' message_lower \<or> str_in ''auth'' message_lower
          then [''Verify credentials'', ''Check authentication service'',
                ''Review session configuration''] else []))"

record error_context =
  error_types :: "string list"
  ctx_severity :: string
  ctx_components :: "string list"
  actions :: "string list"

definition get_error_context :: "(string \<times> regex list) list \<Rightarrow> string \<Rightarrow> error_context" where
  "get_error_context table message =
     \<lparr> error_types = classify_error table message,
       ctx_severity = determine_severity message,
       ctx_components = extract_components message,
       actions = suggest_actions message \<rparr>"


section \<open>classifier/error_classifier.py: ErrorClassifier\<close>

record ErrorClassification =
  error_type :: string
  severity :: string
  confidence :: rat
  components :: "string list"
  suggested_actions :: "string list"
  root_cause :: "string option"
  affected_systems :: "string list"
  classification_rules :: "string list"

text \<open>
  \<open>list(set(xs))\<close> keeps one copy of every element, in an order Python does not
  specify. The model takes the order of first occurrence; the theorems about such lists
  speak of their elements and of \<^const>\<open>distinct\<close> only.
\<close>

definition list_of_set :: "'a list \<Rightarrow> 'a list" where
  "list_of_set xs = remdups xs"

definition root_cause_patterns :: "(string \<times> (regex \<times> string) list) list" where
  "root_cause_patterns =
   [(''database_errors'',
      [(gap ''connection'' ''timeout'', ''Database connection timeout''),
       (Lit ''deadlock'', ''Database deadlock detected''),
       (gap ''constraint'' ''violation'', ''Database constraint violation''),
       (gap ''query'' ''failed'', ''SQL query execution failed'')]),
    (''network_errors'',
      [(gap ''connection'' ''refused'', ''Service connection refused''),
       (Lit ''timeout'', ''Network timeout''),
       (gap3 ''host'' ''not'' ''found'', ''DNS resolution failed''),
       (gap ''ssl'' ''error'', ''SSL/TLS handshake failed'')]),
    (''application_errors'',
      [(gap ''null'' ''pointer'', ''Null pointer exception''),
       (gap ''segmentation'' ''fault'', ''Memory access violation''),
       (gap3 ''out'' ''of'' ''memory'', ''Memory exhaustion''),
       (gap ''permission'' ''denied'', ''File system permission denied'')])]"

text \<open>The first cause whose pattern is found, trying the error types in order.\<close>

fun determine_root_cause :: "string \<Rightarrow> string list \<Rightarrow> string option" where
  "determine_root_cause message [] = None"
| "determine_root_cause message (et # ets) =
     (case map_of root_cause_patterns et of
        None \<Rightarrow> determine_root_cause message ets
      | Some pcs \<Rightarrow>
          (case find (\<lambda>(pattern, cause). re_search_ignorecase pattern message) pcs of
             Some (pattern, cause) \<Rightarrow> Some cause
           | None \<Rightarrow> determine_root_cause message ets))"

definition system_patterns :: "(regex \<times> string) list" where
  "system_patterns =
   [(alts [Lit ''api'', Lit ''rest'', Lit ''graphql''], ''API Gateway''),
    (alts [Lit ''database'', Lit ''db'', Lit ''mysql'', Lit ''postgres'', Lit ''mongodb''],
       ''Database System''),
    (alts [Lit ''cache'', Lit ''redis'', Lit ''memcached''], ''Caching System''),
    (alts [Lit ''queue'', Lit ''kafka'', Lit ''rabbitmq''], ''Message Queue''),
    (alts [Lit ''storage'', Lit ''s3'', Lit ''filesystem''], ''Storage System''),
    (alts [Lit ''auth'', Lit ''oauth'', Lit ''jwt''], ''Authentication System''),
    (alts [Lit ''monitoring'', Lit ''metrics'', Lit ''prometheus''], ''Monitoring System''),
    (alts [gap ''load'' ''balancer'', Lit ''nginx'', Lit ''haproxy''], ''Load Balancer'')]"

definition determine_affected_systems :: "string \<Rightarrow> string list \<Rightarrow> string list" where
  "determine_affected_systems message comps =
     (let message_lower = lower message
      in list_of_set (comps @
           map snd (filter (\<lambda>(pattern, system). re_search pattern message_lower)
                           system_patterns)))"

text \<open>\<open>', '.join(xs)\<close>.\<close>

fun join_comma :: "string list \<Rightarrow> string" where
  "join_comma [] = []"
| "join_comma [x] = x"
| "join_comma (x # xs) = x @ '', '' @ join_comma xs"

definition get_classification_rules :: "string \<Rightarrow> string list \<Rightarrow> string list" where
  "get_classification_rules message ets =
     (let rules = map (\<lambda>et. ''Error type detected: '' @ et) ets;
          rules = rules @ [''Severity determined: '' @ determine_severity message];
          comps = extract_components message
      in if comps \<noteq> [] then rules @ [''Components detected: '' @ join_comma comps]
         else rules)"

definition calculate_rule_confidence :: "string list \<Rightarrow> string \<Rightarrow> rat" where
  "calculate_rule_confidence ets message =
     (let c = 0;
          c = (if ets \<noteq> [] \<and> hd ets \<noteq> ''unknown'' then c + 3 / 10 else c);
          c = (if length message > 10 then c + 1 / 10 else c);
          c = (if extract_components message \<noteq> [] then c + 2 / 10 else c);
          c = (if suggest_actions message \<noteq> [] then c + 2 / 10 else c);
          c = (if length ets = 1 then c + 2 / 10 else c)
      in min c 1)"

text \<open>
  \<open>_classify_with_rules\<close> receives \<open>structured_data\<close> and never reads it. Its primary
  type is \<open>error_types[0]\<close>; \<open>classify_error\<close> never returns the empty list.
\<close>

definition classify_with_rules ::
  "(string \<times> regex list) list \<Rightarrow> string \<Rightarrow> 'sd \<Rightarrow> ErrorClassification" where
  "classify_with_rules table message structured_data =
     (let ctx = get_error_context table message;
          ets = error_types ctx;
          primary_type = (if ets \<noteq> [] then hd ets else ''unknown'')
      in \<lparr> error_type = primary_type,
           severity = ctx_severity ctx,
           confidence = calculate_rule_confidence ets message,
           components = ctx_components ctx,
           suggested_actions = actions ctx,
           root_cause = determine_root_cause message ets,
           affected_systems = determine_affected_systems message (ctx_components ctx),
           classification_rules = get_classification_rules message ets \<rparr>)"

text \<open>The placeholder result of \<open>_classify_with_ml\<close>.\<close>

definition classify_with_ml :: "string \<Rightarrow> 'sd \<Rightarrow> ErrorClassification" where
  "classify_with_ml message structured_data =
     \<lparr> error_type = ''ml_predicted_type'', severity = ''INFO'', confidence = 8 / 10,
       components = [''ml_component''], suggested_actions = [''ML suggested action''],
       root_cause = Some ''ML determined root cause'', affected_systems = [''ml_system''],
       classification_rules = [''ml_rule''] \<rparr>"

definition unknown_classification :: "string list \<Rightarrow> ErrorClassification" where
  "unknown_classification acts =
     \<lparr> error_type = ''unknown'', severity = ''UNKNOWN'', confidence = 0,
       components = [], suggested_actions = acts, root_cause = None,
       affected_systems = [], classification_rules = [] \<rparr>"

definition combine_classifications :: "ErrorClassification list \<Rightarrow> ErrorClassification" where
  "combine_classifications classifications =
     (case classifications of
        [] \<Rightarrow> unknown_classification []
      | [c] \<Rightarrow> c
      | primary # others \<Rightarrow>
          (let all_components = components primary @ concat (map components others);
               all_actions = list_of_set (suggested_actions primary)
                               @ concat (map suggested_actions others);
               combined_confidence =
                 sum_list (map confidence classifications) / of_nat (length classifications)
           in \<lparr> error_type = error_type primary,
                severity = severity primary,
                confidence = combined_confidence,
                components = list_of_set all_components,
                suggested_actions = list_of_set all_actions,
                root_cause = root_cause primary,
                affected_systems = affected_systems primary,
                classification_rules = classification_rules primary \<rparr>))"

record ClassifierConfig =
  enable_ml :: bool
  enable_rules :: bool

text \<open>
  The classifier object: its configuration, whether an ML model is loaded (the source
  never loads one), the pattern table and the memoization cache, a dictionary from
  \<open>hash(message)\<close> to the classification, in insertion order.
\<close>

record ErrorClassifier =
  config :: ClassifierConfig
  ml_model :: bool
  error_patterns :: "(string \<times> regex list) list"
  classification_cache :: "(int \<times> ErrorClassification) list"

definition cache_size :: nat where
  "cache_size = 500"

definition classify_error_sources ::
  "ErrorClassifier \<Rightarrow> string \<Rightarrow> 'sd \<Rightarrow> ErrorClassification" where
  "classify_error_sources clf message structured_data =
     (let classifications =
            (if enable_rules (config clf)
             then [classify_with_rules (error_patterns clf) message structured_data] else []);
          classifications =
            (if enable_ml (config clf) \<and> ml_model clf
             then classifications @ [classify_with_ml message structured_data]
             else classifications)
      in combine_classifications classifications)"

text \<open>\<open>_add_to_cache\<close>: a full cache first drops its oldest key.\<close>

definition add_to_cache ::
  "int \<Rightarrow> ErrorClassification \<Rightarrow> (int \<times> ErrorClassification) list
     \<Rightarrow> (int \<times> ErrorClassification) list" where
  "add_to_cache key c cache =
     AList.update key c (if length cache \<ge> cache_size then tl cache else cache)"

text \<open>
  A parsed entry is a dictionary; \<open>classify\<close> reads its keys \<open>message\<close> (default the
  empty string) and \<open>structured_data\<close> (default the empty dictionary, \<open>None\<close> here).
  The hash of a string depends on the interpreter's seed and is a parameter. On a
  message that is a string nothing in the body raises, so the handler that returns the
  fallback classification is not reached.
\<close>

record 'sd parsed_entry =
  message :: "string option"
  structured_data :: "'sd option"

definition classify ::
  "(string \<Rightarrow> int) \<Rightarrow> ErrorClassifier \<Rightarrow> 'sd parsed_entry
     \<Rightarrow> ErrorClassification \<times> ErrorClassifier" where
  "classify py_hash clf parsed =
     (let msg = (case message parsed of None \<Rightarrow> [] | Some m \<Rightarrow> m);
          sd = structured_data parsed;
          cache_key = py_hash msg
      in case map_of (classification_cache clf) cache_key of
           Some cached \<Rightarrow> (cached, clf)
         | None \<Rightarrow>
             (let classification = classify_error_sources clf msg sd
              in (classification,
                  clf\<lparr>classification_cache :=
                        add_to_cache cache_key classification (classification_cache clf)\<rparr>)))"


text \<open>\<open>ClassifierConfig()\<close> and \<open>ErrorClassifier(config)\<close>: no model, an empty cache.\<close>

definition default_classifier_config :: ClassifierConfig where
  "default_classifier_config = \<lparr> enable_ml = True, enable_rules = True \<rparr>"

definition init_classifier :: "ClassifierConfig \<Rightarrow> ErrorClassifier" where
  "init_classifier cfg =
     \<lparr> config = cfg, ml_model = False, error_patterns = initialize_error_patterns,
       classification_cache = [] \<rparr>"


section \<open>fix_engine/deterministic_fix_engine.py: DeterministicFixEngine\<close>

text \<open>
  Rules, changes and the two arguments of \<open>generate_fixes\<close> are dictionaries read with
  \<open>.get(key, default)\<close>: a field is \<open>None\<close> when the key is absent. A context object has
  the attributes \<open>code_snippet\<close> and \<open>file_path\<close> or lacks them (\<open>hasattr\<close>).
\<close>

record change_dict =
  chg_file_pattern :: "string option"
  chg_search_pattern :: "string option"
  chg_replace_pattern :: "string option"
  chg_description :: "string option"

record fix_rule =
  rule_name :: "string option"
  rule_pattern :: "string option"
  rule_fix_type :: "string option"
  rule_description :: "string option"
  rule_changes :: "change_dict list option"
  rule_confidence :: "rat option"
  rule_risk_level :: "string option"
  rule_rollback_possible :: "bool option"

record code_change =
  file_pattern :: string
  search_pattern :: string
  replace_pattern :: string
  change_description :: string
  files_affected :: "string list"

record Fix =
  fix_type :: string
  description :: string
  code_changes :: "code_change list"
  fix_confidence :: rat
  risk_level :: string
  rollback_possible :: bool
  estimated_impact :: string

record code_context =
  code_snippet :: "string option"
  file_path :: "string option"

record classification_dict =
  cd_error_type :: "string option"
  cd_severity :: "string option"
  cd_components :: "string list option"

record analysis_dict =
  ad_error_context :: "code_context list option"
  ad_common_patterns :: "(string \<times> int) list option"

record DeterministicFixEngine =
  fix_rules :: "(string \<times> fix_rule list) list"
  fix_cache :: "(int \<times> Fix list) list"

definition fix_cache_size :: nat where
  "fix_cache_size = 200"

text \<open>\<open>d.get(key, default)\<close>.\<close>

definition get_or :: "'a option \<Rightarrow> 'a \<Rightarrow> 'a" where
  "get_or v d = (case v of None \<Rightarrow> d | Some x \<Rightarrow> x)"

text \<open>
  \<open>_get_applicable_fix_rules\<close>. Under severity \<open>CRITICAL\<close> the filter reads
  \<open>rule['risk_level']\<close>, which raises \<open>KeyError\<close> (here \<open>None\<close>) on a rule without
  that key.
\<close>

definition get_applicable_fix_rules ::
  "(string \<times> fix_rule list) list \<Rightarrow> string \<Rightarrow> string \<Rightarrow> string list \<Rightarrow> fix_rule list option" where
  "get_applicable_fix_rules rules et sev comps =
     (let applicable_rules = (case map_of rules et of Some rs \<Rightarrow> rs | None \<Rightarrow> []);
          applicable_rules = applicable_rules @
            concat (map (\<lambda>component.
                      case map_of rules (et @ ''_'' @ component) of Some rs \<Rightarrow> rs | None \<Rightarrow> [])
                    comps)
      in if sev = ''CRITICAL''
         then (if list_all (\<lambda>rule. rule_risk_level rule \<noteq> None) applicable_rules
               then Some (filter (\<lambda>rule. rule_risk_level rule \<in> {Some ''LOW'', Some ''MEDIUM''})
                                 applicable_rules)
               else None)
         else Some applicable_rules)"

text \<open>
  \<open>re.search(pattern, text, re.IGNORECASE)\<close> on the patterns of rules and of the analysis
  is a parameter \<open>search\<close>: \<open>Some True\<close> for a match, \<open>Some False\<close> for none, \<open>None\<close>
  when the pattern does not compile (\<open>re.error\<close>). A loop that returns at the first
  match never evaluates the later patterns.
\<close>

fun first_match :: "('a \<Rightarrow> bool option) \<Rightarrow> 'a list \<Rightarrow> bool option" where
  "first_match f [] = Some False"
| "first_match f (x # xs) =
     (case f x of None \<Rightarrow> None | Some True \<Rightarrow> Some True | Some False \<Rightarrow> first_match f xs)"

definition rule_matches_context ::
  "(string \<Rightarrow> string \<Rightarrow> bool option) \<Rightarrow> fix_rule \<Rightarrow> code_context list
     \<Rightarrow> (string \<times> int) list \<Rightarrow> bool option" where
  "rule_matches_context search rule error_ctx common_patterns =
     (let pattern = get_or (rule_pattern rule) []
      in case (if pattern \<noteq> []
               then first_match (\<lambda>ctx. case code_snippet ctx of
                                          None \<Rightarrow> Some False
                                        | Some snippet \<Rightarrow> search pattern snippet) error_ctx
               else Some False) of
           None \<Rightarrow> None
         | Some True \<Rightarrow> Some True
         | Some False \<Rightarrow>
             first_match (\<lambda>(p, count). search p (get_or (rule_description rule) []))
                         common_patterns)"

fun count_matches ::
  "(string \<Rightarrow> string \<Rightarrow> bool option) \<Rightarrow> string \<Rightarrow> code_context list \<Rightarrow> nat option" where
  "count_matches search pattern [] = Some 0"
| "count_matches search pattern (ctx # ctxs) =
     (case code_snippet ctx of
        None \<Rightarrow> count_matches search pattern ctxs
      | Some snippet \<Rightarrow>
          (case search pattern snippet of
             None \<Rightarrow> None
           | Some b \<Rightarrow>
               (case count_matches search pattern ctxs of
                  None \<Rightarrow> None
                | Some n \<Rightarrow> Some (if b then Suc n else n))))"

definition estimate_impact :: "fix_rule \<Rightarrow> code_context list \<Rightarrow> string" where
  "estimate_impact rule error_ctx =
     (let affected_files = length (remdups (concat (map (\<lambda>ctx.
                             case file_path ctx of None \<Rightarrow> [] | Some fp \<Rightarrow> [fp]) error_ctx)))
      in if affected_files > 10 then ''HIGH''
         else if affected_files > 3 then ''MEDIUM''
         else ''LOW'')"

text \<open>
  \<open>_create_fix_from_rule\<close>: any exception inside (an invalid pattern) is caught and the
  result is \<open>None\<close>.
\<close>

definition create_fix_from_rule ::
  "(string \<Rightarrow> string \<Rightarrow> bool option) \<Rightarrow> fix_rule \<Rightarrow> code_context list
     \<Rightarrow> (string \<times> int) list \<Rightarrow> Fix option" where
  "create_fix_from_rule search rule error_ctx common_patterns =
     (case count_matches search (get_or (rule_pattern rule) []) error_ctx of
        None \<Rightarrow> None
      | Some context_matches \<Rightarrow>
          (let c = get_or (rule_confidence rule) (1 / 2);
               c = (if context_matches > 0 then c + (1 / 10) * of_nat context_matches else c);
               changes = map (\<lambda>change.
                   \<lparr> file_pattern = get_or (chg_file_pattern change) [],
                     search_pattern = get_or (chg_search_pattern change) [],
                     replace_pattern = get_or (chg_replace_pattern change) [],
                     change_description = get_or (chg_description change) [],
                     files_affected = [] \<rparr>) (get_or (rule_changes rule) [])
           in Some \<lparr> fix_type = get_or (rule_fix_type rule) ''unknown'',
                     description = get_or (rule_description rule) [],
                     code_changes = changes,
                     fix_confidence = min c 1,
                     risk_level = get_or (rule_risk_level rule) ''UNKNOWN'',
                     rollback_possible = get_or (rule_rollback_possible rule) False,
                     estimated_impact = estimate_impact rule error_ctx \<rparr>))"

definition risk_score :: "string \<Rightarrow> int" where
  "risk_score level =
     (case map_of [(''LOW'', 1), (''MEDIUM'', 2), (''HIGH'', 3), (''CRITICAL'', 4),
                   (''UNKNOWN'', 5)] (upper level) of
        Some n \<Rightarrow> n | None \<Rightarrow> 5)"

text \<open>
  \<open>xs.sort(key=k, reverse=True)\<close>: CPython reverses the list, sorts it stably in
  ascending key order and reverses it again, so that equal keys keep their order.
\<close>

definition sort_reverse :: "('a \<Rightarrow> 'k::linorder) \<Rightarrow> 'a list \<Rightarrow> 'a list" where
  "sort_reverse k xs = rev (sort_key k (rev xs))"

definition fix_sort_key :: "Fix \<Rightarrow> rat \<times> int" where
  "fix_sort_key x = (fix_confidence x, - risk_score (risk_level x))"

text \<open>
  The loop of \<open>_generate_fixes_for_error\<close> over the applicable rules; an exception of
  \<open>_rule_matches_context\<close> leaves the loop and the function (\<open>None\<close>).
\<close>

fun fixes_for_rules ::
  "(string \<Rightarrow> string \<Rightarrow> bool option) \<Rightarrow> fix_rule list \<Rightarrow> code_context list
     \<Rightarrow> (string \<times> int) list \<Rightarrow> Fix list option" where
  "fixes_for_rules search [] error_ctx common_patterns = Some []"
| "fixes_for_rules search (rule # rs) error_ctx common_patterns =
     (case rule_matches_context search rule error_ctx common_patterns of
        None \<Rightarrow> None
      | Some m \<Rightarrow>
          (case fixes_for_rules search rs error_ctx common_patterns of
             None \<Rightarrow> None
           | Some fixes \<Rightarrow>
               Some (if m then (case create_fix_from_rule search rule error_ctx common_patterns of
                                  None \<Rightarrow> fixes | Some fix \<Rightarrow> fix # fixes)
                     else fixes)))"

definition generate_fixes_for_error ::
  "(string \<Rightarrow> string \<Rightarrow> bool option) \<Rightarrow> (string \<times> fix_rule list) list
     \<Rightarrow> classification_dict \<Rightarrow> analysis_dict \<Rightarrow> Fix list option" where
  "generate_fixes_for_error search rules classification analysis =
     (let et = get_or (cd_error_type classification) [];
          sev = get_or (cd_severity classification) [];
          comps = get_or (cd_components classification) []
      in case get_applicable_fix_rules rules et sev comps of
           None \<Rightarrow> None
         | Some applicable_rules \<Rightarrow>
             (case fixes_for_rules search applicable_rules
                     (get_or (ad_error_context analysis) [])
                     (get_or (ad_common_patterns analysis) []) of
                None \<Rightarrow> None
              | Some fixes \<Rightarrow> Some (sort_reverse fix_sort_key fixes)))"

text \<open>\<open>str(n)\<close> of a length, and \<open>'|'.join(parts)\<close>.\<close>

fun str_nat :: "nat \<Rightarrow> string" where
  "str_nat n = (if n < 10 then [char_of (48 + n)]
                else str_nat (n div 10) @ [char_of (48 + n mod 10)])"

fun join_bar :: "string list \<Rightarrow> string" where
  "join_bar [] = []"
| "join_bar [x] = x"
| "join_bar (x # xs) = x @ ''|'' @ join_bar xs"

definition generate_cache_key ::
  "(string \<Rightarrow> int) \<Rightarrow> classification_dict \<Rightarrow> analysis_dict \<Rightarrow> int" where
  "generate_cache_key py_hash classification analysis =
     py_hash (join_bar [get_or (cd_error_type classification) [],
                        get_or (cd_severity classification) [],
                        str_nat (length (get_or (ad_error_context analysis) [])),
                        str_nat (length (get_or (ad_common_patterns analysis) []))])"

definition add_to_fix_cache ::
  "int \<Rightarrow> Fix list \<Rightarrow> (int \<times> Fix list) list \<Rightarrow> (int \<times> Fix list) list" where
  "add_to_fix_cache key fixes cache =
     AList.update key fixes (if length cache \<ge> fix_cache_size then tl cache else cache)"

text \<open>
  \<open>generate_fixes\<close>: a cached list is returned as it is; an exception anywhere gives
  the empty list and leaves the cache alone.
\<close>

definition generate_fixes ::
  "(string \<Rightarrow> int) \<Rightarrow> (string \<Rightarrow> string \<Rightarrow> bool option) \<Rightarrow> DeterministicFixEngine
     \<Rightarrow> classification_dict \<Rightarrow> analysis_dict \<Rightarrow> Fix list \<times> DeterministicFixEngine" where
  "generate_fixes py_hash search eng classification analysis =
     (let cache_key = generate_cache_key py_hash classification analysis
      in case map_of (fix_cache eng) cache_key of
           Some cached \<Rightarrow> (cached, eng)
         | None \<Rightarrow>
             (case generate_fixes_for_error search (fix_rules eng) classification analysis of
                None \<Rightarrow> ([], eng)
              | Some fixes \<Rightarrow>
                  (fixes, eng\<lparr>fix_cache := add_to_fix_cache cache_key fixes (fix_cache eng)\<rparr>)))"

text \<open>\<open>add_custom_fix_rule\<close>: append the rule to the list of its error type.\<close>

definition add_custom_fix_rule ::
  "string \<Rightarrow> fix_rule \<Rightarrow> (string \<times> fix_rule list) list \<Rightarrow> (string \<times> fix_rule list) list" where
  "add_custom_fix_rule et rule rules =
     AList.update et ((case map_of rules et of None \<Rightarrow> [] | Some rs \<Rightarrow> rs) @ [rule]) rules"

section \<open>memory/incident_memory.py: IncidentMemory\<close>

text \<open>
  A \<open>datetime\<close> is the clock reading in microseconds, an unbounded integer (the year
  limits of Python's type are not modelled); \<open>timedelta(hours=h)\<close> and
  \<open>timedelta(days=d)\<close> are the matching numbers of microseconds. Every call of
  \<open>datetime.now()\<close> is an argument of the function that makes it.
\<close>

definition timedelta_hours :: "int \<Rightarrow> int" where
  "timedelta_hours h = h * 3600 * 1000000"

definition timedelta_days :: "int \<Rightarrow> int" where
  "timedelta_days d = d * 86400 * 1000000"

datatype meta_value = MStr string | MTime int

text \<open>
  An incident with the fields the store reads: the message of its log entry and the
  error type and severity of its classification (\<open>None\<close> for an absent key). The other
  dictionaries it carries (parsed data, analysis, fixes, patches) are one opaque value.
\<close>

record 'p Incident =
  incident_id :: string
  timestamp :: int
  log_message :: "string option"
  cls_error_type :: "string option"
  cls_severity :: "string option"
  payload :: 'p
  resolution_status :: string
  metadata :: "(string \<times> meta_value) list"

record 'p incident_data =
  data_message :: "string option"
  data_error_type :: "string option"
  data_severity :: "string option"
  data_common_patterns :: string
  data_payload :: 'p

record MemoryConfig =
  retention_days :: int
  enable_deduplication :: bool
  version :: string

record 'p IncidentMemory =
  memory_config :: MemoryConfig
  incidents :: "(string \<times> 'p Incident) list"
  incident_cache :: "(string \<times> 'p Incident) list"
  saved :: "'p Incident list"

definition incident_cache_size :: nat where
  "incident_cache_size = 100"

text \<open>\<open>MemoryConfig()\<close> and \<open>IncidentMemory(config)\<close> on a missing storage file.\<close>

definition default_memory_config :: MemoryConfig where
  "default_memory_config =
     \<lparr> retention_days = 365, enable_deduplication = True, version = ''1.0.0'' \<rparr>"

definition init_memory :: "MemoryConfig \<Rightarrow> 'p IncidentMemory" where
  "init_memory cfg =
     \<lparr> memory_config = cfg, incidents = [], incident_cache = [], saved = [] \<rparr>"

text \<open>\<open>_save_incidents\<close>: the whole incident set is written out.\<close>

definition save_incidents :: "'p IncidentMemory \<Rightarrow> 'p IncidentMemory" where
  "save_incidents mem = mem\<lparr>saved := map snd (incidents mem)\<rparr>"

text \<open>\<open>str.isspace\<close> below code point 256, and \<open>str.split()\<close> without arguments.\<close>

definition is_space :: "char \<Rightarrow> bool" where
  "is_space c = (let n = (of_char c :: nat) in
     (9 \<le> n \<and> n \<le> 13) \<or> (28 \<le> n \<and> n \<le> 32) \<or> n = 133 \<or> n = 160)"

fun split_from :: "string \<Rightarrow> string \<Rightarrow> string list" where
  "split_from cur [] = (if cur = [] then [] else [cur])"
| "split_from cur (c # cs) =
     (if is_space c then (if cur = [] then split_from [] cs else cur # split_from [] cs)
      else split_from (cur @ [c]) cs)"

definition split :: "string \<Rightarrow> string list" where
  "split s = split_from [] s"

definition calculate_similarity :: "string \<Rightarrow> string \<Rightarrow> rat" where
  "calculate_similarity text1 text2 =
     (let set1 = set (split text1); set2 = set (split text2);
          intersection = set1 \<inter> set2; union = set1 \<union> set2
      in if union = {} then 0
         else of_nat (card intersection) / of_nat (card union))"

text \<open>
  \<open>_generate_incident_id\<close>: \<open>incident_<time>_<digest>\<close>. The time format
  (\<open>strftime\<close>, to the second) and the first eight hex digits of the MD5 of the key data
  are parameters.
\<close>

definition generate_incident_id ::
  "(int \<Rightarrow> string) \<Rightarrow> (string \<Rightarrow> string) \<Rightarrow> 'p incident_data \<Rightarrow> int \<Rightarrow> string" where
  "generate_incident_id strftime md5_8 d now =
     (let key_data = [get_or (data_message d) [], get_or (data_error_type d) [],
                      get_or (data_severity d) [], data_common_patterns d]
      in ''incident_'' @ strftime now @ ''_'' @ md5_8 (join_bar key_data))"

definition is_duplicate_incident :: "'p IncidentMemory \<Rightarrow> 'p Incident \<Rightarrow> int \<Rightarrow> bool" where
  "is_duplicate_incident mem new_incident now =
     (let cutoff_time = now - timedelta_hours 24
      in list_ex (\<lambda>incident.
            \<not> timestamp incident < cutoff_time
            \<and> cls_error_type incident = cls_error_type new_incident
            \<and> cls_severity incident = cls_severity new_incident
            \<and> calculate_similarity (lower (get_or (log_message incident) []))
                                    (lower (get_or (log_message new_incident) [])) > 8 / 10)
          (map snd (incidents mem)))"

definition add_to_incident_cache ::
  "string \<Rightarrow> 'p Incident \<Rightarrow> (string \<times> 'p Incident) list \<Rightarrow> (string \<times> 'p Incident) list" where
  "add_to_incident_cache key inc cache =
     AList.update key inc (if length cache \<ge> incident_cache_size then tl cache else cache)"

text \<open>
  The five clock readings of one \<open>store_incident\<close> call, in program order: for the id,
  for the timestamp, for \<open>created_at\<close>, for the duplicate check and for \<open>stored_at\<close>.
\<close>

record store_clock =
  id_now :: int
  timestamp_now :: int
  created_now :: int
  check_now :: int
  stored_now :: int

text \<open>
  \<open>store_incident\<close> returns the id and the new state. The incident is saved before
  \<open>stored_at\<close> is written into its metadata; the dictionary and the cache share the
  object and see the later write. On data of these types nothing in the body raises, so
  the handler that returns the empty string is not reached.
\<close>

definition store_incident ::
  "(int \<Rightarrow> string) \<Rightarrow> (string \<Rightarrow> string) \<Rightarrow> 'p IncidentMemory \<Rightarrow> 'p incident_data
     \<Rightarrow> store_clock \<Rightarrow> string \<times> 'p IncidentMemory" where
  "store_incident strftime md5_8 mem d clk =
     (let iid = generate_incident_id strftime md5_8 d (id_now clk);
          incident = \<lparr> incident_id = iid, timestamp = timestamp_now clk,
                       log_message = data_message d, cls_error_type = data_error_type d,
                       cls_severity = data_severity d, payload = data_payload d,
                       resolution_status = ''pending'',
                       metadata = [(''created_at'', MTime (created_now clk)),
                                   (''source'', MStr ''devops_ai''),
                                   (''version'', MStr (version (memory_config mem)))] \<rparr>
      in if enable_deduplication (memory_config mem)
            \<and> is_duplicate_incident mem incident (check_now clk)
         then (iid, mem)
         else (let stored = incident\<lparr>metadata :=
                     AList.update ''stored_at'' (MTime (stored_now clk)) (metadata incident)\<rparr>;
                   mem1 = save_incidents (mem\<lparr>incidents := AList.update iid incident (incidents mem)\<rparr>)
               in (iid, mem1\<lparr>incidents := AList.update iid stored (incidents mem),
                             incident_cache :=
                               add_to_incident_cache iid stored (incident_cache mem)\<rparr>)))"

text \<open>\<open>get_memory_stats()['total_incidents']\<close>.\<close>

definition total_incidents :: "'p IncidentMemory \<Rightarrow> nat" where
  "total_incidents mem = length (incidents mem)"

definition calculate_incident_similarity :: "'p Incident \<Rightarrow> 'p Incident \<Rightarrow> rat" where
  "calculate_incident_similarity incident1 incident2 =
     (let similarity_scores =
            (if cls_error_type incident1 = cls_error_type incident2 then [4 / 10] else [])
          @ (if cls_severity incident1 = cls_severity incident2 then [3 / 10] else [])
          @ [calculate_similarity (lower (get_or (log_message incident1) []))
                                  (lower (get_or (log_message incident2) [])) * (3 / 10)]
      in sum_list similarity_scores)"

text \<open>\<open>xs[:limit]\<close>: a negative limit counts from the end.\<close>

definition slice_to :: "int \<Rightarrow> 'a list \<Rightarrow> 'a list" where
  "slice_to limit xs =
     (if limit \<ge> 0 then take (nat limit) xs else take (nat (int (length xs) + limit)) xs)"

definition get_similar_incidents ::
  "'p IncidentMemory \<Rightarrow> 'p Incident \<Rightarrow> int \<Rightarrow> 'p Incident list" where
  "get_similar_incidents mem incident limit =
     (let similar_incidents =
            concat (map (\<lambda>stored_incident.
              if incident_id stored_incident = incident_id incident then []
              else (let similarity = calculate_incident_similarity incident stored_incident
                    in if similarity > 5 / 10 then [(similarity, stored_incident)] else []))
              (map snd (incidents mem)));
          similar_incidents = sort_reverse fst similar_incidents
      in map snd (slice_to limit similar_incidents))"

text \<open>
  \<open>cleanup_old_incidents\<close>: the ids of the incidents older than the cutoff are collected
  first, then deleted from the dictionary and from the cache; the set is saved when
  something was removed.
\<close>

definition cleanup_old_incidents :: "'p IncidentMemory \<Rightarrow> int \<Rightarrow> 'p IncidentMemory" where
  "cleanup_old_incidents mem now =
     (let cutoff_time = now - timedelta_days (retention_days (memory_config mem));
          incidents_to_remove =
            map fst (filter (\<lambda>(iid, incident). timestamp incident < cutoff_time) (incidents mem));
          mem1 = mem\<lparr>incidents := filter (\<lambda>(iid, incident). iid \<notin> set incidents_to_remove)
                                          (incidents mem),
                     incident_cache := filter (\<lambda>(iid, incident). iid \<notin> set incidents_to_remove)
                                          (incident_cache mem)\<rparr>
      in if length incidents_to_remove > 0 then save_incidents mem1 else mem1)"


section \<open>patch/patch_generator.py: apply_patch and its backup\<close>

text \<open>
  The file system below the target directory: a file with its bytes or a directory with
  its entries. The state of a run is the node at \<open>target_dir\<close>, \<open>None\<close> when nothing
  exists there. The backup path is \<open>f"{target_dir}/.backup_{patch_id}"\<close>: the entry named
  \<open>.backup_<patch_id>\<close> of the target directory itself (patch ids are generated as
  \<open>patch_<time>_<number>\<close> and hold no path separator).
\<close>

datatype node = File string | Dir "(string \<times> node) list"

datatype os_error = FileNotFoundError | NotADirectoryError


datatype message = Text string | Raised os_error





text \<open>\<open>os.path.exists\<close> of the backup path, and the node found there.\<close>

definition lookup_backup :: "node option \<Rightarrow> string \<Rightarrow> node option" where
  "lookup_backup target name =
     (case target of Some (Dir entries) \<Rightarrow> map_of entries name | _ \<Rightarrow> None)"


text \<open>
  \<open>_restore_backup\<close>: if the target exists it is removed with \<open>shutil.rmtree\<close>, the
  backup directory inside it included; \<open>shutil.copytree(backup_dir, target_dir)\<close> then
  reads the backup path in the state that is left. Any exception is raised again.
\<close>

definition restore_backup :: "node option \<Rightarrow> string \<Rightarrow> (os_error + unit) \<times> node option" where
  "restore_backup target name =
     (case (case target of
              Some (File bytes) \<Rightarrow> Inl NotADirectoryError
            | _ \<Rightarrow> Inr (None :: node option)) of
        Inl e \<Rightarrow> (Inl e, target)
      | Inr target1 \<Rightarrow>
          (case lookup_backup target1 name of
             None \<Rightarrow> (Inl FileNotFoundError, target1)
           | Some (File bytes) \<Rightarrow> (Inl NotADirectoryError, target1)
           | Some (Dir entries) \<Rightarrow> (Inr (), Some (Dir entries))))"





section \<open>Invariants and concrete inputs\<close>

subsection \<open>Invariants of the confidence scores\<close>

definition confidence_in_range :: "rat \<Rightarrow> bool" where
  "confidence_in_range c = (0 \<le> c \<and> c \<le> 1)"

definition classification_cache_ok :: "ErrorClassifier \<Rightarrow> bool" where
  "classification_cache_ok clf =
     list_all (\<lambda>(k, c). confidence_in_range (confidence c)) (classification_cache clf)"

definition fix_cache_ok :: "DeterministicFixEngine \<Rightarrow> bool" where
  "fix_cache_ok eng =
     list_all (\<lambda>(k, fs). list_all (\<lambda>f. confidence_in_range (fix_confidence f)) fs)
              (fix_cache eng)"

definition rule_confidences_ok :: "(string \<times> fix_rule list) list \<Rightarrow> bool" where
  "rule_confidences_ok rules =
     list_all (\<lambda>(k, rs). list_all (\<lambda>r. case rule_confidence r of
                                          None \<Rightarrow> True
                                        | Some c \<Rightarrow> confidence_in_range c) rs) rules"

subsection \<open>Concrete inputs for the runs below\<close>

text \<open>A search that knows literal patterns only, ignoring case.\<close>

definition literal_search :: "string \<Rightarrow> string \<Rightarrow> bool option" where
  "literal_search p s = Some (str_in (lower p) (lower s))"

definition high_risk_rule :: fix_rule where
  "high_risk_rule =
     \<lparr> rule_name = Some ''restart_pool_fix'', rule_pattern = Some ''timeout'',
       rule_fix_type = Some ''code'', rule_description = Some ''Restart the connection pool'',
       rule_changes = Some [], rule_confidence = Some (8 / 10),
       rule_risk_level = Some ''HIGH'', rule_rollback_possible = Some False \<rparr>"

definition low_risk_rule :: fix_rule where
  "low_risk_rule =
     \<lparr> rule_name = Some ''connection_timeout_fix'', rule_pattern = Some ''timeout'',
       rule_fix_type = Some ''configuration'',
       rule_description = Some ''Increase connection timeout settings'',
       rule_changes = Some [], rule_confidence = Some (8 / 10),
       rule_risk_level = Some ''LOW'', rule_rollback_possible = Some True \<rparr>"



definition two_rule_engine :: DeterministicFixEngine where
  "two_rule_engine =
     \<lparr> fix_rules = add_custom_fix_rule ''database_errors'' low_risk_rule
                     (add_custom_fix_rule ''database_errors'' high_risk_rule []),
       fix_cache = [] \<rparr>"

definition timeout_analysis :: analysis_dict where
  "timeout_analysis =
     \<lparr> ad_error_context = Some [\<lparr> code_snippet = Some ''conn = connect(timeout=5)'',
                                  file_path = Some ''app/db.py'' \<rparr>],
       ad_common_patterns = Some [(''timeout'', 1)] \<rparr>"

definition critical_db_error :: classification_dict where
  "critical_db_error =
     \<lparr> cd_error_type = Some ''database_errors'', cd_severity = Some ''CRITICAL'',
       cd_components = Some [''database''] \<rparr>"

definition warning_db_error :: classification_dict where
  "warning_db_error =
     \<lparr> cd_error_type = Some ''database_errors'', cd_severity = Some ''WARNING'',
       cd_components = Some [''database''] \<rparr>"

text \<open>Incidents of the store runs: a time format to the second and a constant digest.\<close>

definition seconds_format :: "int \<Rightarrow> string" where
  "seconds_format t = str_nat (nat (t div 1000000))"

definition const_digest :: "string \<Rightarrow> string" where
  "const_digest s = ''0a1b2c3d''"

definition at_time :: "int \<Rightarrow> store_clock" where
  "at_time t = \<lparr> id_now = t, timestamp_now = t, created_now = t, check_now = t,
                 stored_now = t \<rparr>"

definition timeout_data :: "unit incident_data" where
  "timeout_data =
     \<lparr> data_message = Some ''Database connection timeout after 30s'',
       data_error_type = Some ''database_errors'', data_severity = Some ''WARNING'',
       data_common_patterns = ''{}'', data_payload = () \<rparr>"

definition blank_data :: "unit incident_data" where
  "blank_data =
     \<lparr> data_message = Some [], data_error_type = Some ''database_errors'',
       data_severity = Some ''WARNING'', data_common_patterns = ''{}'', data_payload = () \<rparr>"

definition incident_at :: "string \<Rightarrow> int \<Rightarrow> string \<Rightarrow> unit Incident" where
  "incident_at iid t msg =
     \<lparr> incident_id = iid, timestamp = t, log_message = Some msg,
       cls_error_type = Some ''database_errors'', cls_severity = Some ''WARNING'',
       payload = (), resolution_status = ''pending'', metadata = [] \<rparr>"

definition day :: int where
  "day = 86400000000"

text \<open>
  A store for the retention run, read at day 1000 with 365 days of retention: one incident
  366 days old, one 364 days old.
\<close>

definition retention_memory :: "unit IncidentMemory" where
  "retention_memory =
     \<lparr> memory_config = default_memory_config,
       incidents = [(''incident_old'', incident_at ''incident_old'' (634 * day) ''disk full''),
                    (''incident_new'', incident_at ''incident_new'' (636 * day) ''disk full'')],
       incident_cache = [(''incident_old'', incident_at ''incident_old'' (634 * day) ''disk full'')],
       saved = [] \<rparr>"

text \<open>
  A store for the similarity runs: the query itself, an incident with the same message,
  one with another message and one that differs in type, severity and message.
\<close>

definition query_incident :: "unit Incident" where
  "query_incident = incident_at ''incident_q'' 0 ''database connection timeout''"

definition unrelated_incident :: "unit Incident" where
  "unrelated_incident =
     \<lparr> incident_id = ''incident_c'', timestamp = 0, log_message = Some ''token expired'',
       cls_error_type = Some ''authentication_errors'', cls_severity = Some ''ERROR'',
       payload = (), resolution_status = ''pending'', metadata = [] \<rparr>"

definition similar_memory :: "unit IncidentMemory" where
  "similar_memory =
     \<lparr> memory_config = default_memory_config,
       incidents = [(''incident_q'', query_incident),
                    (''incident_b'', incident_at ''incident_b'' 0 ''disk full''),
                    (''incident_c'', unrelated_incident),
                    (''incident_a'', incident_at ''incident_a'' 0 ''Database connection timeout'')],
       incident_cache = [], saved = [] \<rparr>"



text \<open>A hash function for the concrete runs below: every string hashes to 0.\<close>

definition zero_hash :: "string \<Rightarrow> int" where
  "zero_hash s = 0"

section \<open>Properties of the classifier\<close>

lemma rules_database_timeout:
  "classify_with_rules initialize_error_patterns ''Database connection timeout after 30s'' sd =
     \<lparr> error_type = ''database_errors'', severity = ''WARNING'', confidence = 4 / 5,
       components = [''database'', ''network''],
       suggested_actions =
         [''Check network connectivity'', ''Increase timeout settings'',
          ''Monitor resource usage'', ''Verify service availability'',
          ''Check connection configuration'', ''Review firewall settings'',
          ''Check database connectivity'', ''Verify database permissions'',
          ''Review query performance''],
       root_cause = Some ''Database connection timeout'',
       affected_systems = [''database'', ''network'', ''Database System''],
       classification_rules =
         [''Error type detected: database_errors'', ''Error type detected: network_errors'',
          ''Severity determined: WARNING'', ''Components detected: database, network''] \<rparr>"
  by code_simp

lemma classify_fresh:
  "fst (classify h (init_classifier default_classifier_config)
          \<lparr> message = Some m, structured_data = sd \<rparr>) =
     classify_with_rules initialize_error_patterns m sd"
  by (simp add: classify_def init_classifier_def default_classifier_config_def
        classify_error_sources_def combine_classifications_def Let_def)

text \<open>
  C1 (as the code has it). A fresh classifier with the default configuration, given the
  message "Database connection timeout after 30s" and no structured data, returns error
  type \<open>database_errors\<close>, severity \<open>WARNING\<close>, components that contain \<open>database\<close>,
  and confidence 0.8: the message matches the patterns of two error types
  (\<open>database_errors\<close> and \<open>network_errors\<close>), so the single-type bonus is not added.
\<close>

theorem C1_database_timeout_classification:
  "(let c = fst (classify h (init_classifier default_classifier_config)
                   \<lparr> message = Some ''Database connection timeout after 30s'',
                     structured_data = None \<rparr>)
    in error_type c = ''database_errors'' \<and> severity c = ''WARNING''
       \<and> ''database'' \<in> set (components c) \<and> confidence c = 8 / 10
       \<and> classify_error initialize_error_patterns ''Database connection timeout after 30s''
           = [''database_errors'', ''network_errors''])"
proof -
  have "classify_error initialize_error_patterns ''Database connection timeout after 30s''
          = [''database_errors'', ''network_errors'']"
    by code_simp
  then show ?thesis
    by (simp add: classify_fresh rules_database_timeout)
qed

text \<open>
  C1 as stated fails: the confidence returned for that message is not 1.0.
\<close>

theorem C1_confidence_counterexample:
  "confidence (fst (classify zero_hash (init_classifier default_classifier_config)
                      \<lparr> message = Some ''Database connection timeout after 30s'',
                        structured_data = (None :: unit option) \<rparr>)) \<noteq> 1"
  by (simp add: classify_fresh rules_database_timeout)


lemma calc_conf_range: "confidence_in_range (calculate_rule_confidence ets m)"
  by (simp add: calculate_rule_confidence_def confidence_in_range_def Let_def)

lemma rules_conf_range: "confidence_in_range (confidence (classify_with_rules t m sd))"
  by (simp add: classify_with_rules_def Let_def calc_conf_range)

lemma sources_conf_range: "confidence_in_range (confidence (classify_error_sources clf m sd))"
  using rules_conf_range [of "error_patterns clf" m sd]
  by (auto simp: classify_error_sources_def combine_classifications_def Let_def
        unknown_classification_def classify_with_ml_def confidence_in_range_def)

lemma list_all_update:
  "list_all P xs \<Longrightarrow> P (k, v) \<Longrightarrow> list_all P (AList.update k v xs)"
  by (induction xs) auto

lemma list_all_tl: "list_all P xs \<Longrightarrow> list_all P (tl xs)"
  by (cases xs) auto

lemma map_of_list_all: "list_all P xs \<Longrightarrow> map_of xs k = Some v \<Longrightarrow> P (k, v)"
  by (induction xs) (auto split: if_splits)

lemma classify_conf:
  assumes "classification_cache_ok clf"
  shows "confidence_in_range (confidence (fst (classify h clf e)))"
    and "classification_cache_ok (snd (classify h clf e))"
  using assms sources_conf_range
  by (auto simp: classify_def classification_cache_ok_def Let_def add_to_cache_def
        intro!: list_all_update list_all_tl dest: map_of_list_all split: option.splits)

text \<open>
  C7. Combining two or more classifications takes error type, severity, root cause,
  affected systems and applied rules from the first one; the components are the union of
  all sources' components, the suggested actions the union of all sources' actions
  without duplicates, and the confidence the arithmetic mean of the sources'
  confidences. A single classification is returned unchanged.
\<close>

theorem C7_combine_classifications:
  "(let cs = p # q # rest; r = combine_classifications cs
    in error_type r = error_type p \<and> severity r = severity p \<and> root_cause r = root_cause p
       \<and> affected_systems r = affected_systems p
       \<and> classification_rules r = classification_rules p
       \<and> set (components r) = (\<Union> (set (map (\<lambda>c. set (components c)) cs)))
       \<and> distinct (components r)
       \<and> set (suggested_actions r) = (\<Union> (set (map (\<lambda>c. set (suggested_actions c)) cs)))
       \<and> distinct (suggested_actions r)
       \<and> confidence r = sum_list (map confidence cs) / of_nat (length cs))
   \<and> combine_classifications [c] = c"
  by (auto simp: combine_classifications_def list_of_set_def Let_def)

text \<open>
  C9. With the rule-based source enabled and the ML source disabled, two parsed entries
  with equal \<open>message\<close> fields get equal classifications from the same classifier state
  (and leave it in the same state), whatever their \<open>structured_data\<close>; classifying the
  second entry after the first returns the first result again, from the cache.
\<close>

theorem C9_structured_data_ignored:
  assumes "message e1 = message e2"
    and "enable_rules (config clf)" and "\<not> enable_ml (config clf)"
  shows "classify h clf e1 = classify h clf e2
         \<and> fst (classify h (snd (classify h clf e1)) e2) = fst (classify h clf e1)"
proof -
  have same: "classify_error_sources clf m (structured_data e1)
                = classify_error_sources clf m (structured_data e2)" for m
    using assms(2,3)
    by (simp add: classify_error_sources_def classify_with_rules_def Let_def)
  have first: "classify h clf e1 = classify h clf e2"
    using assms(1) same by (simp add: classify_def Let_def split: option.splits)
  have again: "fst (classify h (snd (classify h clf e1)) e1) = fst (classify h clf e1)"
    by (auto simp: classify_def Let_def add_to_cache_def AList.update_conv'
          classify_error_sources_def split: option.splits)
  have "fst (classify h (snd (classify h clf e1)) e2) = fst (classify h (snd (classify h clf e1)) e1)"
    using assms(1)
    by (auto simp: classify_def Let_def add_to_cache_def AList.update_conv'
          classify_error_sources_def classify_with_rules_def split: option.splits)
  with first again show ?thesis by simp
qed

theorem C9_structured_data_ignored_witness:
  "(let clf = init_classifier \<lparr> enable_ml = False, enable_rules = True \<rparr>;
        e1 = \<lparr> message = Some ''Database connection timeout after 30s'',
               structured_data = Some [(''host'', ''db1'')] \<rparr>;
        e2 = \<lparr> message = Some ''Database connection timeout after 30s'',
               structured_data = None \<rparr>
    in message e1 = message e2 \<and> enable_rules (config clf) \<and> \<not> enable_ml (config clf)
       \<and> structured_data e1 \<noteq> structured_data e2
       \<and> classify zero_hash clf e1 = classify zero_hash clf e2)"
proof -
  let ?clf = "init_classifier \<lparr> enable_ml = False, enable_rules = True \<rparr>"
  let ?e1 = "\<lparr> message = Some ''Database connection timeout after 30s'',
               structured_data = Some [(''host'', ''db1'')] \<rparr>"
  let ?e2 = "\<lparr> message = Some ''Database connection timeout after 30s'',
               structured_data = (None :: (string \<times> string) list option) \<rparr>"
  have m: "message ?e1 = message ?e2" by simp
  have r: "enable_rules (config ?clf)" by (simp add: init_classifier_def)
  have n: "\<not> enable_ml (config ?clf)" by (simp add: init_classifier_def)
  from C9_structured_data_ignored [OF m r n, of zero_hash] m r n show ?thesis
    by (simp add: Let_def)
qed


section \<open>Properties of the fix engine\<close>


lemma sort_reverse_set: "set (sort_reverse k xs) = set xs"
  by (simp add: sort_reverse_def)

lemma sort_reverse_length: "length (sort_reverse k xs) = length xs"
  by (simp add: sort_reverse_def)

lemma sort_reverse_desc:
  assumes "i \<le> j" "j < length xs"
  shows "k (sort_reverse k xs ! j) \<le> k (sort_reverse k xs ! i)"
proof -
  let ?ys = "map k (sort_reverse k xs)"
  have "sorted (rev ?ys)"
    by (simp add: sort_reverse_def rev_map [symmetric])
  moreover have "j < length ?ys" using assms by (simp add: sort_reverse_length)
  ultimately have "?ys ! j \<le> ?ys ! i"
    using assms(1) sorted_rev_nth_mono [of ?ys i j] by blast
  then show ?thesis using assms by (simp add: sort_reverse_length)
qed


lemma gap_all:
  "get_applicable_fix_rules rules et ''CRITICAL'' comps = Some rs \<Longrightarrow>
     \<forall>r \<in> set rs. rule_risk_level r \<in> {Some ''LOW'', Some ''MEDIUM''}"
  by (auto simp: get_applicable_fix_rules_def Let_def split: if_splits)

lemma create_fix_risk:
  "create_fix_from_rule search r ctx cps = Some f \<Longrightarrow> risk_level f = get_or (rule_risk_level r) ''UNKNOWN''"
  by (auto simp: create_fix_from_rule_def Let_def split: option.splits)

lemma fixes_for_rules_origin:
  "fixes_for_rules search rs ctx cps = Some fs \<Longrightarrow>
     \<forall>f \<in> set fs. \<exists>r \<in> set rs. rule_matches_context search r ctx cps = Some True
        \<and> create_fix_from_rule search r ctx cps = Some f"
proof (induction rs arbitrary: fs)
  case Nil then show ?case by simp
next
  case (Cons r rs)
  then show ?case
    by (fastforce split: option.splits if_splits)
qed

lemma create_fix_conf:
  assumes "create_fix_from_rule search r ctx cps = Some f"
  shows "fix_confidence f \<le> 1" and "(\<forall>c. rule_confidence r = Some c \<longrightarrow> 0 \<le> c) \<Longrightarrow> 0 \<le> fix_confidence f"
  using assms
  by (auto simp: create_fix_from_rule_def Let_def get_or_def split: option.splits if_splits)

lemma fixes_for_rules_conf:
  assumes "fixes_for_rules search rs ctx cps = Some fs"
    and "list_all (\<lambda>r. case rule_confidence r of None \<Rightarrow> True | Some c \<Rightarrow> confidence_in_range c) rs"
  shows "list_all (\<lambda>f. confidence_in_range (fix_confidence f)) fs"
proof -
  have "confidence_in_range (fix_confidence f)" if "f \<in> set fs" for f
  proof -
    from fixes_for_rules_origin [OF assms(1)] that obtain r
      where r: "r \<in> set rs" "create_fix_from_rule search r ctx cps = Some f" by blast
    from assms(2) r(1) have "\<forall>c. rule_confidence r = Some c \<longrightarrow> 0 \<le> c"
      by (auto simp: list_all_iff confidence_in_range_def split: option.splits)
    with create_fix_conf [OF r(2)] show ?thesis by (simp add: confidence_in_range_def)
  qed
  then show ?thesis by (simp add: list_all_iff)
qed

lemma lookup_rules_mem:
  "r \<in> set (case map_of rules k of Some rs \<Rightarrow> rs | None \<Rightarrow> []) \<Longrightarrow>
     \<exists>k krs. (k, krs) \<in> set rules \<and> r \<in> set krs"
  by (cases "map_of rules k") (auto dest: map_of_SomeD)

lemma applicable_subset:
  assumes "get_applicable_fix_rules rules et sev comps = Some rs" and "r \<in> set rs"
  shows "\<exists>k krs. (k, krs) \<in> set rules \<and> r \<in> set krs"
proof -
  let ?cands = "(case map_of rules et of Some rs \<Rightarrow> rs | None \<Rightarrow> []) @
     concat (map (\<lambda>component.
        case map_of rules (et @ ''_'' @ component) of Some rs \<Rightarrow> rs | None \<Rightarrow> []) comps)"
  from assms have "r \<in> set ?cands"
    by (auto simp: get_applicable_fix_rules_def Let_def split: if_splits)
  then consider "r \<in> set (case map_of rules et of Some rs \<Rightarrow> rs | None \<Rightarrow> [])"
    | c where "r \<in> set (case map_of rules (et @ ''_'' @ c) of Some rs \<Rightarrow> rs | None \<Rightarrow> [])"
    by auto
  then show ?thesis
    by cases (blast dest: lookup_rules_mem)+
qed

lemma generate_for_error_conf:
  assumes "generate_fixes_for_error search rules cls an = Some fs" and "rule_confidences_ok rules"
  shows "list_all (\<lambda>f. confidence_in_range (fix_confidence f)) fs"
proof -
  from assms(1) obtain rs us where
    rs: "get_applicable_fix_rules rules (get_or (cd_error_type cls) [])
           (get_or (cd_severity cls) []) (get_or (cd_components cls) []) = Some rs"
    and us: "fixes_for_rules search rs (get_or (ad_error_context an) [])
               (get_or (ad_common_patterns an) []) = Some us"
    and fs: "fs = sort_reverse fix_sort_key us"
    by (auto simp: generate_fixes_for_error_def Let_def split: option.splits)
  have "list_all (\<lambda>r. case rule_confidence r of None \<Rightarrow> True | Some c \<Rightarrow> confidence_in_range c) rs"
    unfolding list_all_iff
  proof
    fix r assume "r \<in> set rs"
    from applicable_subset [OF rs this] obtain k krs where "(k, krs) \<in> set rules" "r \<in> set krs"
      by blast
    with assms(2) show "case rule_confidence r of None \<Rightarrow> True | Some c \<Rightarrow> confidence_in_range c"
      by (auto simp: rule_confidences_ok_def list_all_iff)
  qed
  from fixes_for_rules_conf [OF us this] show ?thesis
    by (simp add: fs list_all_iff sort_reverse_set)
qed

lemma generate_fixes_conf:
  assumes "rule_confidences_ok (fix_rules eng)" and "fix_cache_ok eng"
  shows "list_all (\<lambda>f. confidence_in_range (fix_confidence f)) (fst (generate_fixes h search eng cls an))"
    and "fix_cache_ok (snd (generate_fixes h search eng cls an))"
proof -
  let ?k = "generate_cache_key h cls an"
  show "list_all (\<lambda>f. confidence_in_range (fix_confidence f)) (fst (generate_fixes h search eng cls an))"
  proof (cases "map_of (fix_cache eng) ?k")
    case (Some cached)
    with assms(2) map_of_list_all [of _ "fix_cache eng" ?k cached] show ?thesis
      by (auto simp: generate_fixes_def fix_cache_ok_def Let_def)
  next
    case None
    then show ?thesis
      using generate_for_error_conf [OF _ assms(1)]
      by (auto simp: generate_fixes_def Let_def split: option.splits)
  qed
  show "fix_cache_ok (snd (generate_fixes h search eng cls an))"
    using assms(2) generate_for_error_conf [OF _ assms(1)]
    by (auto simp: generate_fixes_def Let_def fix_cache_ok_def add_to_fix_cache_def
          intro!: list_all_update list_all_tl split: option.splits)
qed

text \<open>
  C6. If every rule's declared confidence lies in [0, 1] and the two caches hold only
  results whose confidences lie in [0, 1] (true of the empty caches of a new object and
  kept by every call), then the classification returned by \<open>classify\<close> and every fix
  returned by \<open>generate_fixes\<close> have a confidence in [0, 1].
\<close>

theorem C6_confidence_bounds:
  assumes "classification_cache_ok clf" and "rule_confidences_ok (fix_rules eng)"
    and "fix_cache_ok eng"
  shows "0 \<le> confidence (fst (classify h clf e)) \<and> confidence (fst (classify h clf e)) \<le> 1
       \<and> classification_cache_ok (snd (classify h clf e))
       \<and> (\<forall>f \<in> set (fst (generate_fixes g search eng cls an)).
             0 \<le> fix_confidence f \<and> fix_confidence f \<le> 1)
       \<and> fix_cache_ok (snd (generate_fixes g search eng cls an))
       \<and> classification_cache_ok (init_classifier cfg)"
  using classify_conf [OF assms(1), of h e] generate_fixes_conf [OF assms(2,3), of g search cls an]
  by (simp add: confidence_in_range_def list_all_iff classification_cache_ok_def
        init_classifier_def)

theorem C6_confidence_bounds_witness:
  "classification_cache_ok (init_classifier default_classifier_config)
   \<and> rule_confidences_ok (fix_rules two_rule_engine) \<and> fix_cache_ok two_rule_engine
   \<and> 0 \<le> confidence (fst (classify zero_hash (init_classifier default_classifier_config)
                \<lparr> message = Some ''Database connection timeout after 30s'',
                  structured_data = (None :: unit option) \<rparr>))
   \<and> confidence (fst (classify zero_hash (init_classifier default_classifier_config)
                \<lparr> message = Some ''Database connection timeout after 30s'',
                  structured_data = (None :: unit option) \<rparr>)) \<le> 1
   \<and> list_all (\<lambda>c. 0 \<le> c \<and> c \<le> 1)
        (map fix_confidence (fst (generate_fixes zero_hash literal_search two_rule_engine
                                    warning_db_error timeout_analysis)))
   \<and> length (fst (generate_fixes zero_hash literal_search two_rule_engine
                     warning_db_error timeout_analysis)) = 2"
proof -
  have l: "length (fst (generate_fixes zero_hash literal_search two_rule_engine
                     warning_db_error timeout_analysis)) = 2"
    by code_simp
  have c: "classification_cache_ok (init_classifier default_classifier_config)"
    by (simp add: classification_cache_ok_def init_classifier_def)
  have r: "rule_confidences_ok (fix_rules two_rule_engine)"
    by code_simp
  have f: "fix_cache_ok two_rule_engine"
    by (simp add: fix_cache_ok_def two_rule_engine_def)
  from C6_confidence_bounds [OF c r f, where h = zero_hash and g = zero_hash
      and e = "\<lparr> message = Some ''Database connection timeout after 30s'',
                 structured_data = (None :: unit option) \<rparr>"
      and search = literal_search and cls = warning_db_error and an = timeout_analysis
      and cfg = default_classifier_config] c r f l
  show ?thesis by (simp add: list_all_iff)
qed

text \<open>
  C4. Under a classification of severity \<open>CRITICAL\<close>, every rule that
  \<open>_get_applicable_fix_rules\<close> hands to fix generation has risk level \<open>LOW\<close> or
  \<open>MEDIUM\<close>, and so has every fix that \<open>_generate_fixes_for_error\<close> computes, and every
  fix that \<open>generate_fixes\<close> returns when it computes its answer (no cache entry under the
  key of the call); with one \<open>LOW\<close> and one \<open>HIGH\<close> rule only the \<open>LOW\<close> fix comes out.
\<close>

theorem C4_critical_severity_gate:
  assumes "cd_severity cls = Some ''CRITICAL''"
  shows "(\<forall>rs. get_applicable_fix_rules rules (get_or (cd_error_type cls) []) ''CRITICAL''
                 (get_or (cd_components cls) []) = Some rs
              \<longrightarrow> (\<forall>r \<in> set rs. rule_risk_level r \<in> {Some ''LOW'', Some ''MEDIUM''}))
       \<and> (\<forall>fs. generate_fixes_for_error search rules cls an = Some fs
              \<longrightarrow> (\<forall>f \<in> set fs. risk_level f \<in> {''LOW'', ''MEDIUM''}))
       \<and> (map_of (fix_cache eng) (generate_cache_key h cls an) = None
              \<longrightarrow> (\<forall>f \<in> set (fst (generate_fixes h search eng cls an)).
                     risk_level f \<in> {''LOW'', ''MEDIUM''}))"
proof -
  have gen: "\<forall>f \<in> set fs. risk_level f \<in> {''LOW'', ''MEDIUM''}"
    if "generate_fixes_for_error search rs0 cls an = Some fs" for fs rs0
  proof
    fix f assume f: "f \<in> set fs"
    from that assms obtain rs us where
      rs: "get_applicable_fix_rules rs0 (get_or (cd_error_type cls) []) ''CRITICAL''
             (get_or (cd_components cls) []) = Some rs"
      and us: "fixes_for_rules search rs (get_or (ad_error_context an) [])
                 (get_or (ad_common_patterns an) []) = Some us"
      and fs: "fs = sort_reverse fix_sort_key us"
      by (auto simp: generate_fixes_for_error_def Let_def get_or_def split: option.splits)
    from f fs have "f \<in> set us" by (simp add: sort_reverse_set)
    with fixes_for_rules_origin [OF us] obtain r where
      r: "r \<in> set rs" "create_fix_from_rule search r (get_or (ad_error_context an) [])
             (get_or (ad_common_patterns an) []) = Some f" by blast
    from gap_all [OF rs] r(1) have "rule_risk_level r \<in> {Some ''LOW'', Some ''MEDIUM''}" by blast
    with create_fix_risk [OF r(2)] show "risk_level f \<in> {''LOW'', ''MEDIUM''}"
      by (auto simp: get_or_def)
  qed
  have cached: "\<forall>f \<in> set (fst (generate_fixes h search eng cls an)).
                     risk_level f \<in> {''LOW'', ''MEDIUM''}"
    if "map_of (fix_cache eng) (generate_cache_key h cls an) = None"
    using that gen [of "fix_rules eng"]
    by (auto simp: generate_fixes_def Let_def split: option.splits)
  from gap_all gen cached show ?thesis by blast
qed

lemma two_rule_critical_run:
  "map risk_level (fst (generate_fixes zero_hash literal_search two_rule_engine
                          critical_db_error timeout_analysis)) = [''LOW'']"
  by code_simp

theorem C4_critical_severity_gate_witness:
  "cd_severity critical_db_error = Some ''CRITICAL''
   \<and> map_of (fix_cache two_rule_engine)
        (generate_cache_key zero_hash critical_db_error timeout_analysis) = None
   \<and> set (map risk_level (fst (generate_fixes zero_hash literal_search two_rule_engine
                                 critical_db_error timeout_analysis)))
        \<subseteq> {''LOW'', ''MEDIUM''}
   \<and> map risk_level (fst (generate_fixes zero_hash literal_search two_rule_engine
                            critical_db_error timeout_analysis)) = [''LOW'']"
proof -
  have sev: "cd_severity critical_db_error = Some ''CRITICAL''"
    by (simp add: critical_db_error_def)
  have miss: "map_of (fix_cache two_rule_engine)
        (generate_cache_key zero_hash critical_db_error timeout_analysis) = None"
    by (simp add: two_rule_engine_def)
  from C4_critical_severity_gate [OF sev, of "fix_rules two_rule_engine" literal_search
      timeout_analysis two_rule_engine zero_hash] miss sev two_rule_critical_run
  show ?thesis by auto
qed







section \<open>Properties of the patch lifecycle\<close>

lemma restore_backup_fails:
  "\<exists>e t. restore_backup target name = (Inl e, t) \<and> (\<forall>entries. t \<noteq> Some (Dir entries))"
  by (cases target rule: option.exhaust; simp add: restore_backup_def lookup_backup_def
        split: node.splits)









section \<open>Properties of the incident store\<close>

lemma store_duplicate:
  assumes "enable_deduplication (memory_config mem)"
    and "old \<in> snd ` set (incidents mem)"
    and "check_now clk - timedelta_hours 24 \<le> timestamp old"
    and "cls_error_type old = data_error_type d" and "cls_severity old = data_severity d"
    and "calculate_similarity (lower (get_or (log_message old) []))
           (lower (get_or (data_message d) [])) > 8 / 10"
  shows "store_incident fmt dig mem d clk = (generate_incident_id fmt dig d (id_now clk), mem)"
proof -
  have "is_duplicate_incident mem
          \<lparr> incident_id = generate_incident_id fmt dig d (id_now clk),
            timestamp = timestamp_now clk, log_message = data_message d,
            cls_error_type = data_error_type d, cls_severity = data_severity d,
            payload = data_payload d, resolution_status = ''pending'',
            metadata = [(''created_at'', MTime (created_now clk)),
                        (''source'', MStr ''devops_ai''),
                        (''version'', MStr (version (memory_config mem)))] \<rparr> (check_now clk)"
    unfolding is_duplicate_incident_def Let_def list_ex_iff
    using assms(2-6) by (intro bexI [of _ old]) auto
  with assms(1) show ?thesis
    by (simp add: store_incident_def Let_def)
qed

lemma similarity_self:
  assumes "split t \<noteq> []"
  shows "calculate_similarity t t = 1"
proof -
  from assms have "set (split t) \<noteq> {}" by simp
  moreover then have "card (set (split t)) \<noteq> 0" by simp
  ultimately show ?thesis by (simp add: calculate_similarity_def Let_def)
qed

lemma store_first:
  "store_incident fmt dig (init_memory cfg) d clk =
     (generate_incident_id fmt dig d (id_now clk), m) \<Longrightarrow>
   total_incidents m = 1 \<and> memory_config m = cfg
   \<and> (\<exists>i. incidents m = [(generate_incident_id fmt dig d (id_now clk), i)]
          \<and> timestamp i = timestamp_now clk \<and> log_message i = data_message d
          \<and> cls_error_type i = data_error_type d \<and> cls_severity i = data_severity d)"
  by (auto simp: store_incident_def init_memory_def is_duplicate_incident_def Let_def
        total_incidents_def save_incidents_def)

text \<open>
  C3 (as the code has it). With deduplication enabled: storing an incident for which the
  store holds an incident no older than 24 hours with the same error type and severity
  and a Jaccard similarity above 0.8 between the lower-cased token sets of the two
  messages leaves the whole store as it was (incident set, cache and saved file; the
  count does not grow) and returns the newly generated id. In particular, storing the
  same incident twice into a new store, the second time within a minute of the first,
  leaves one incident, provided its message has at least one token.
\<close>

theorem C3_store_time_dedup:
  "(enable_deduplication (memory_config mem) \<and> old \<in> snd ` set (incidents mem)
      \<and> check_now clk - timedelta_hours 24 \<le> timestamp old
      \<and> cls_error_type old = data_error_type d \<and> cls_severity old = data_severity d
      \<and> calculate_similarity (lower (get_or (log_message old) []))
           (lower (get_or (data_message d) [])) > 8 / 10
    \<longrightarrow> store_incident fmt dig mem d clk = (generate_incident_id fmt dig d (id_now clk), mem)
        \<and> total_incidents (snd (store_incident fmt dig mem d clk)) = total_incidents mem)
   \<and> (enable_deduplication cfg \<and> split (lower (get_or (data_message d) [])) \<noteq> []
      \<and> check_now clk2 - timestamp_now clk1 \<le> 60 * 1000000
    \<longrightarrow> total_incidents (snd (store_incident fmt dig
            (snd (store_incident fmt dig (init_memory cfg) d clk1)) d clk2)) = 1
        \<and> fst (store_incident fmt dig
            (snd (store_incident fmt dig (init_memory cfg) d clk1)) d clk2)
            = generate_incident_id fmt dig d (id_now clk2))"
proof (intro conjI impI)
  assume a: "enable_deduplication (memory_config mem) \<and> old \<in> snd ` set (incidents mem)
      \<and> check_now clk - timedelta_hours 24 \<le> timestamp old
      \<and> cls_error_type old = data_error_type d \<and> cls_severity old = data_severity d
      \<and> calculate_similarity (lower (get_or (log_message old) []))
           (lower (get_or (data_message d) [])) > 8 / 10"
  then show s: "store_incident fmt dig mem d clk = (generate_incident_id fmt dig d (id_now clk), mem)"
    by (intro store_duplicate [of mem old clk d]) auto
  then show "total_incidents (snd (store_incident fmt dig mem d clk)) = total_incidents mem"
    by simp
next
  assume b: "enable_deduplication cfg \<and> split (lower (get_or (data_message d) [])) \<noteq> []
      \<and> check_now clk2 - timestamp_now clk1 \<le> 60 * 1000000"
  let ?m1 = "snd (store_incident fmt dig (init_memory cfg) d clk1)"
  have "store_incident fmt dig (init_memory cfg) d clk1
          = (generate_incident_id fmt dig d (id_now clk1), ?m1)"
    by (simp add: store_incident_def Let_def)
  from store_first [OF this] obtain i where
    m1: "total_incidents ?m1 = 1" "memory_config ?m1 = cfg"
      "incidents ?m1 = [(generate_incident_id fmt dig d (id_now clk1), i)]"
      "timestamp i = timestamp_now clk1" "log_message i = data_message d"
      "cls_error_type i = data_error_type d" "cls_severity i = data_severity d"
    by blast
  have sim: "calculate_similarity (lower (get_or (log_message i) []))
           (lower (get_or (data_message d) [])) > 8 / 10"
    using b m1(5) by (simp add: similarity_self)
  have "store_incident fmt dig ?m1 d clk2 = (generate_incident_id fmt dig d (id_now clk2), ?m1)"
  proof (rule store_duplicate [of ?m1 i clk2 d])
    show "enable_deduplication (memory_config ?m1)" using b m1(2) by simp
    show "i \<in> snd ` set (incidents ?m1)" by (simp add: m1(3))
    show "check_now clk2 - timedelta_hours 24 \<le> timestamp i"
      using b m1(4) by (simp add: timedelta_hours_def)
  qed (use m1 sim in auto)
  with m1(1) show "total_incidents (snd (store_incident fmt dig ?m1 d clk2)) = 1"
    and "fst (store_incident fmt dig ?m1 d clk2) = generate_incident_id fmt dig d (id_now clk2)"
    by simp_all
qed

lemma timeout_tokens: "split (lower (get_or (data_message timeout_data) [])) \<noteq> []"
  by code_simp

theorem C3_store_time_dedup_witness:
  "enable_deduplication default_memory_config
   \<and> split (lower (get_or (data_message timeout_data) [])) \<noteq> []
   \<and> check_now (at_time 31000000) - timestamp_now (at_time 1000000) \<le> 60 * 1000000
   \<and> total_incidents (snd (store_incident seconds_format const_digest
        (snd (store_incident seconds_format const_digest (init_memory default_memory_config)
                timeout_data (at_time 1000000))) timeout_data (at_time 31000000))) = 1
   \<and> fst (store_incident seconds_format const_digest
        (snd (store_incident seconds_format const_digest (init_memory default_memory_config)
                timeout_data (at_time 1000000))) timeout_data (at_time 31000000))
       = generate_incident_id seconds_format const_digest timeout_data 31000000"
proof -
  have e: "enable_deduplication default_memory_config"
    by (simp add: default_memory_config_def)
  have t: "check_now (at_time 31000000) - timestamp_now (at_time 1000000) \<le> 60 * 1000000"
    by (simp add: at_time_def)
  have i: "id_now (at_time 31000000) = 31000000" by (simp add: at_time_def)
  from C3_store_time_dedup [where cfg = default_memory_config and d = timeout_data
      and ?clk1.0 = "at_time 1000000" and ?clk2.0 = "at_time 31000000"
      and fmt = seconds_format and dig = const_digest] e t timeout_tokens i
  show ?thesis by simp
qed

lemma dedup_off_run:
  "total_incidents (snd (store_incident seconds_format const_digest
        (snd (store_incident seconds_format const_digest
                (init_memory (default_memory_config\<lparr>enable_deduplication := False\<rparr>))
                timeout_data (at_time 1000000))) timeout_data (at_time 31000000))) = 2"
  by code_simp

lemma blank_run:
  "total_incidents (snd (store_incident seconds_format const_digest
        (snd (store_incident seconds_format const_digest (init_memory default_memory_config)
                blank_data (at_time 1000000))) blank_data (at_time 31000000))) = 2"
  by code_simp

text \<open>
  C3 as stated fails in two ways: with deduplication switched off in the configuration
  the same incident stored twice, thirty seconds apart, is kept twice; and with
  deduplication on, an incident whose message has no token is kept twice as well, since
  the similarity of two empty token sets is 0.
\<close>

theorem C3_dedup_counterexample:
  "total_incidents (snd (store_incident seconds_format const_digest
        (snd (store_incident seconds_format const_digest
                (init_memory (default_memory_config\<lparr>enable_deduplication := False\<rparr>))
                timeout_data (at_time 1000000))) timeout_data (at_time 31000000))) \<noteq> 1
   \<and> total_incidents (snd (store_incident seconds_format const_digest
        (snd (store_incident seconds_format const_digest (init_memory default_memory_config)
                blank_data (at_time 1000000))) blank_data (at_time 31000000))) \<noteq> 1"
  by (simp add: dedup_off_run blank_run)

lemma removed_ids_iff:
  assumes "distinct (map fst xs)" and "(k, i) \<in> set xs"
  shows "k \<in> set (map fst (filter (\<lambda>(k, i). P i) xs)) \<longleftrightarrow> P i"
proof
  assume "k \<in> set (map fst (filter (\<lambda>(k, i). P i) xs))"
  then obtain i' where "(k, i') \<in> set xs" "P i'" by auto
  with assms eq_key_imp_eq_value [of xs k i' i] show "P i" by simp
next
  assume "P i"
  with assms(2) show "k \<in> set (map fst (filter (\<lambda>(k, i). P i) xs))" by force
qed

lemma save_fields:
  "incidents (save_incidents m) = incidents m"
  "incident_cache (save_incidents m) = incident_cache m"
  "memory_config (save_incidents m) = memory_config m"
  by (simp_all add: save_incidents_def)

lemma cleanup_fields:
  "incidents (cleanup_old_incidents mem now) =
     filter (\<lambda>(k, i). k \<notin> set (map fst (filter (\<lambda>(k, i).
        timestamp i < now - timedelta_days (retention_days (memory_config mem))) (incidents mem))))
       (incidents mem)"
  "incident_cache (cleanup_old_incidents mem now) =
     filter (\<lambda>(k, i). k \<notin> set (map fst (filter (\<lambda>(k, i).
        timestamp i < now - timedelta_days (retention_days (memory_config mem))) (incidents mem))))
       (incident_cache mem)"
  unfolding cleanup_old_incidents_def Let_def
  by (simp_all only: if_distrib [of incidents] if_distrib [of incident_cache] save_fields if_cancel)
     simp_all

lemma cleanup_incidents:
  assumes "distinct (map fst (incidents mem))"
  shows "incidents (cleanup_old_incidents mem now) =
     filter (\<lambda>(k, i). \<not> timestamp i < now - timedelta_days (retention_days (memory_config mem)))
       (incidents mem)"
proof -
  let ?old = "\<lambda>i. timestamp i < now - timedelta_days (retention_days (memory_config mem))"
  have "filter (\<lambda>(k, i). k \<notin> set (map fst (filter (\<lambda>(k, i). ?old i) (incidents mem))))
          (incidents mem) = filter (\<lambda>(k, i). \<not> ?old i) (incidents mem)"
    by (rule filter_cong [OF refl]) (use removed_ids_iff [OF assms, where P = ?old] in auto)
  then show ?thesis
    by (simp only: cleanup_fields)
qed

text \<open>
  C8. After \<open>cleanup_old_incidents\<close> at time \<open>now\<close> the store holds exactly the
  incidents that are not older than \<open>now\<close> minus \<open>retention_days\<close> days, in their old
  order: an incident older than the cutoff is gone from the dictionary and from the
  cache, an incident newer than the cutoff is found under its id, unchanged. The keys
  of the dictionary are distinct.
\<close>

theorem C8_cleanup_retention:
  assumes "distinct (map fst (incidents mem))"
  shows "(let cutoff = now - timedelta_days (retention_days (memory_config mem));
              mem' = cleanup_old_incidents mem now
          in incidents mem' = filter (\<lambda>(k, i). \<not> timestamp i < cutoff) (incidents mem)
             \<and> (\<forall>k i. (k, i) \<in> set (incidents mem) \<and> timestamp i < cutoff
                    \<longrightarrow> map_of (incidents mem') k = None
                        \<and> map_of (incident_cache mem') k = None
                        \<and> i \<notin> snd ` set (incidents mem'))
             \<and> (\<forall>k i. (k, i) \<in> set (incidents mem) \<and> cutoff < timestamp i
                    \<longrightarrow> map_of (incidents mem') k = Some i))"
proof -
  let ?cutoff = "now - timedelta_days (retention_days (memory_config mem))"
  let ?mem' = "cleanup_old_incidents mem now"
  let ?keep = "\<lambda>(k, i). \<not> timestamp i < ?cutoff"
  have inc: "incidents ?mem' = filter ?keep (incidents mem)"
    by (rule cleanup_incidents [OF assms])
  have dist: "distinct (map fst (incidents ?mem'))"
    unfolding inc using assms by (rule distinct_map_filter)
  have old: "map_of (incidents ?mem') k = None \<and> map_of (incident_cache ?mem') k = None
               \<and> i \<notin> snd ` set (incidents ?mem')"
    if "(k, i) \<in> set (incidents mem)" "timestamp i < ?cutoff" for k i
  proof (intro conjI)
    have "k \<notin> fst ` set (incidents ?mem')"
    proof
      assume "k \<in> fst ` set (incidents ?mem')"
      then obtain i' where "(k, i') \<in> set (incidents mem)" "\<not> timestamp i' < ?cutoff"
        unfolding inc by auto
      with that assms eq_key_imp_eq_value [of "incidents mem" k i' i] show False by simp
    qed
    then show "map_of (incidents ?mem') k = None" by (simp add: map_of_eq_None_iff)
    have "k \<in> set (map fst (filter (\<lambda>(k, i). timestamp i < ?cutoff) (incidents mem)))"
      using that by force
    then have "k \<notin> fst ` set (incident_cache ?mem')"
      unfolding cleanup_fields(2) by force
    then show "map_of (incident_cache ?mem') k = None" by (simp add: map_of_eq_None_iff)
    show "i \<notin> snd ` set (incidents ?mem')"
      using that(2) unfolding inc by auto
  qed
  have new: "map_of (incidents ?mem') k = Some i"
    if "(k, i) \<in> set (incidents mem)" "?cutoff < timestamp i" for k i
  proof -
    from that have "(k, i) \<in> set (incidents ?mem')" unfolding inc by auto
    with dist show ?thesis by (rule map_of_is_SomeI)
  qed
  show ?thesis
    unfolding Let_def
  proof (intro conjI allI impI)
    show "incidents ?mem' = filter ?keep (incidents mem)" by (rule inc)
  qed (use old new in blast)+
qed

lemma slice_to_take: "\<exists>n. slice_to limit xs = take n xs \<and> (0 \<le> limit \<longrightarrow> n = nat limit)"
  by (auto simp: slice_to_def)

lemma similar_candidates:
  assumes "(s, x) \<in> set (concat (map (\<lambda>stored_incident.
              if incident_id stored_incident = incident_id q then []
              else (let similarity = calculate_incident_similarity q stored_incident
                    in if similarity > 5 / 10 then [(similarity, stored_incident)] else []))
              vs))"
  shows "s = calculate_incident_similarity q x \<and> s > 5 / 10
         \<and> incident_id x \<noteq> incident_id q \<and> x \<in> set vs"
  using assms by (auto simp: Let_def split: if_splits)

text \<open>
  C10 (as the code has it). For every store, query incident and limit, every incident
  returned by \<open>get_similar_incidents\<close> is a stored incident with an id other than the
  query's and a weighted similarity to the query above 0.5; the results stand in order
  of non-increasing similarity; and for a limit that is not negative there are at most
  \<open>limit\<close> of them.
\<close>

theorem C10_similar_incidents:
  "(let r = get_similar_incidents mem q limit
    in (0 \<le> limit \<longrightarrow> int (length r) \<le> limit)
       \<and> (\<forall>x \<in> set r. incident_id x \<noteq> incident_id q
             \<and> calculate_incident_similarity q x > 5 / 10
             \<and> x \<in> snd ` set (incidents mem))
       \<and> (\<forall>i j. i \<le> j \<and> j < length r
             \<longrightarrow> calculate_incident_similarity q (r ! j) \<le> calculate_incident_similarity q (r ! i)))"
proof -
  let ?cands = "concat (map (\<lambda>stored_incident.
              if incident_id stored_incident = incident_id q then []
              else (let similarity = calculate_incident_similarity q stored_incident
                    in if similarity > 5 / 10 then [(similarity, stored_incident)] else []))
              (map snd (incidents mem)))"
  let ?sorted = "sort_reverse fst ?cands"
  let ?r = "get_similar_incidents mem q limit"
  from slice_to_take [of limit ?sorted] obtain n where
    n: "slice_to limit ?sorted = take n ?sorted" "0 \<le> limit \<longrightarrow> n = nat limit" by blast
  have r: "?r = map snd (take n ?sorted)"
    unfolding get_similar_incidents_def by (simp only: Let_def n(1) [unfolded Let_def])
  have cand: "s = calculate_incident_similarity q x \<and> s > 5 / 10
         \<and> incident_id x \<noteq> incident_id q \<and> x \<in> snd ` set (incidents mem)"
    if "(s, x) \<in> set ?sorted" for s x
    using that similar_candidates [of s x q "map snd (incidents mem)"]
    by (simp add: sort_reverse_set)
  have len: "int (length ?r) \<le> limit" if "0 \<le> limit"
    using that n(2) by (simp add: r)
  have mem: "incident_id x \<noteq> incident_id q \<and> calculate_incident_similarity q x > 5 / 10
             \<and> x \<in> snd ` set (incidents mem)" if "x \<in> set ?r" for x
  proof -
    from that obtain s where "(s, x) \<in> set (take n ?sorted)" unfolding r by auto
    then have "(s, x) \<in> set ?sorted" by (rule in_set_takeD)
    from cand [OF this] show ?thesis by simp
  qed
  have nth: "calculate_incident_similarity q (?r ! j) = fst (?sorted ! j)" if "j < length ?r" for j
  proof -
    from that have j: "j < n" "j < length ?sorted" by (simp_all add: r)
    then have "?r ! j = snd (?sorted ! j)" by (simp add: r)
    moreover from j have "(fst (?sorted ! j), snd (?sorted ! j)) \<in> set ?sorted" by simp
    from cand [OF this] have "fst (?sorted ! j) = calculate_incident_similarity q (snd (?sorted ! j))"
      by simp
    ultimately show ?thesis by simp
  qed
  have ord: "calculate_incident_similarity q (?r ! j) \<le> calculate_incident_similarity q (?r ! i)"
    if "i \<le> j" "j < length ?r" for i j
  proof -
    from that have "j < length ?cands" by (simp add: r sort_reverse_length)
    from sort_reverse_desc [OF that(1) this, of fst]
    have "fst (?sorted ! j) \<le> fst (?sorted ! i)" .
    with that nth [of i] nth [of j] show ?thesis by simp
  qed
  show ?thesis
    unfolding Let_def
  proof (intro conjI allI impI ballI)
    show "int (length ?r) \<le> limit" if "0 \<le> limit" using that by (rule len)
  qed (use mem ord in blast)+
qed

lemma similar_run:
  "map incident_id (get_similar_incidents similar_memory query_incident 5)
     = [''incident_a'', ''incident_b'']"
  by code_simp

theorem C10_similar_incidents_witness:
  "map incident_id (get_similar_incidents similar_memory query_incident 5)
     = [''incident_a'', ''incident_b'']
   \<and> int (length (get_similar_incidents similar_memory query_incident 5)) \<le> 5
   \<and> incident_id query_incident \<in> fst ` set (incidents similar_memory)"
proof -
  have "(0::int) \<le> 5" by simp
  with C10_similar_incidents [of similar_memory query_incident 5]
  have "int (length (get_similar_incidents similar_memory query_incident 5)) \<le> 5"
    by (simp add: Let_def)
  moreover have "incident_id query_incident \<in> fst ` set (incidents similar_memory)"
    by (simp add: similar_memory_def query_incident_def incident_at_def)
  ultimately show ?thesis using similar_run by simp
qed

lemma negative_limit_run:
  "map incident_id (get_similar_incidents similar_memory query_incident (- 1)) = [''incident_a'']"
  by code_simp

text \<open>
  C10 as stated fails for a negative limit: \<open>similar_incidents[:-1]\<close> drops the last of
  the two similar incidents and returns one, which is more than \<open>-1\<close>.
\<close>

theorem C10_negative_limit_counterexample:
  "\<not> int (length (get_similar_incidents similar_memory query_incident (- 1))) \<le> - 1"
proof -
  have "length (map incident_id (get_similar_incidents similar_memory query_incident (- 1))) = 1"
    by (simp only: negative_limit_run) simp
  then show ?thesis by simp
qed

lemma retention_run:
  "map fst (incidents (cleanup_old_incidents retention_memory (1000 * day))) = [''incident_new'']"
  by code_simp

theorem C8_cleanup_retention_witness:
  "distinct (map fst (incidents retention_memory))
   \<and> map fst (incidents (cleanup_old_incidents retention_memory (1000 * day))) = [''incident_new'']
   \<and> map_of (incidents (cleanup_old_incidents retention_memory (1000 * day))) ''incident_old'' = None
   \<and> map_of (incident_cache (cleanup_old_incidents retention_memory (1000 * day))) ''incident_old''
       = None
   \<and> map_of (incidents (cleanup_old_incidents retention_memory (1000 * day))) ''incident_new''
       = Some (incident_at ''incident_new'' (1000 * day - (365 - 1) * day) ''disk full'')"
proof -
  have d: "distinct (map fst (incidents retention_memory))"
    by (simp add: retention_memory_def)
  have o: "(''incident_old'', incident_at ''incident_old'' (634 * day) ''disk full'')
             \<in> set (incidents retention_memory)"
    and n: "(''incident_new'', incident_at ''incident_new'' (636 * day) ''disk full'')
             \<in> set (incidents retention_memory)"
    by (simp_all add: retention_memory_def)
  have ot: "timestamp (incident_at ''incident_old'' (634 * day) ''disk full'')
              < 1000 * day - timedelta_days (retention_days (memory_config retention_memory))"
    and nt: "1000 * day - timedelta_days (retention_days (memory_config retention_memory))
              < timestamp (incident_at ''incident_new'' (636 * day) ''disk full'')"
    by (simp_all add: retention_memory_def default_memory_config_def incident_at_def day_def
          timedelta_days_def)
  from C8_cleanup_retention [OF d, of "1000 * day"] o n ot nt
  have "map_of (incidents (cleanup_old_incidents retention_memory (1000 * day))) ''incident_old'' = None
   \<and> map_of (incident_cache (cleanup_old_incidents retention_memory (1000 * day))) ''incident_old''
       = None
   \<and> map_of (incidents (cleanup_old_incidents retention_memory (1000 * day))) ''incident_new''
       = Some (incident_at ''incident_new'' (636 * day) ''disk full'')"
    unfolding Let_def by blast
  with d retention_run show ?thesis by (simp add: day_def)
qed

end
